theory Spec2Isabelle
  imports Main "HOL-Library.Sublist"
begin

section \<open>Data model\<close>

text \<open>
  A value caught by a \<open>catch (error)\<close> clause. The handlers report
  \<open>error instanceof Error ? error.message : fallback\<close>, so the model keeps the
  message of an \<open>Error\<close> object and one constructor for everything else.
\<close>

datatype thrown = ErrorObj string | NonError

fun error_message :: "thrown \<Rightarrow> string \<Rightarrow> string" where
  "error_message (ErrorObj m) fallback = m"
| "error_message NonError fallback = fallback"

text \<open>Rows of the persistence layer (the columns the socket path reads or writes).\<close>

record message =
  msg_id :: nat
  msg_senderId :: string
  msg_channelId :: string
  msg_content :: string
  msg_type :: string

record mention =
  mn_messageId :: nat
  mn_mentionedUserId :: string
  mn_mentionedById :: string
  mn_type :: string
  mn_mentionText :: string
  mn_positionStart :: int
  mn_positionEnd :: int

record user =
  user_id :: string
  username :: string
  isOnline :: bool
  lastSeenAt :: "nat option"

record channel =
  channel_id :: string
  members :: "string list"
  isActive :: bool
  isArchived :: bool
  messageCount :: nat
  lastMessageAt :: "nat option"

text \<open>
  \<open>SocketWithAuth\<close>: the socket id and the \<open>userId\<close> attached by the
  authentication middleware.
\<close>

record socket =
  sock_id :: string
  sock_userId :: string

text \<open>Outbound events, one constructor per event name with its payload.\<close>

datatype event =
    message_new message
  | user_typing string string bool
  | message_read string string
  | user_online string
  | user_offline string
  | user_presence string string nat
  | channel_joined string
  | channel_left string
  | error_event string string

text \<open>
  The state of one server process: the sockets of the namespace, the adapter's rooms
  (room name to socket ids), the tables, every emission made so far with the set of
  socket ids it was delivered to, and whether \<open>process.exit\<close> has been scheduled by
  the \<open>uncaughtException\<close> / \<open>unhandledRejection\<close> hooks.
\<close>

record server =
  sockets :: "socket list"
  rooms :: "string \<Rightarrow> string set"
  users :: "user list"
  channels :: "channel list"
  messages :: "message list"
  mentions :: "mention list"
  outbox :: "(string set \<times> event) list"
  exited :: bool

text \<open>
  Collaborator calls that can throw. A fault plan says, for one run of a handler, which
  calls throw and what they throw.
\<close>

datatype call =
    IsUserMember
  | MessageCreate
  | FindByUsername
  | MentionCreate
  | IncrementMessageCount
  | UpdateOnlineStatus
  | FindUserChannels
  | SocketJoin
  | SocketLeave

type_synonym faults = "call \<Rightarrow> thrown option"

definition no_faults :: faults where
  "no_faults = (\<lambda>c. None)"

text \<open>Inbound payloads (\<open>data: any\<close>); \<open>None\<close> stands for a missing payload.\<close>

record send_data =
  sd_channelId :: string
  sd_content :: string
  sd_type :: "string option"

record typing_data =
  td_channelId :: string
  td_isTyping :: bool
  td_userId :: "string option"

record read_data =
  rd_messageId :: string
  rd_channelId :: string
  rd_userId :: "string option"

record channel_data =
  cd_channelId :: string

record presence_data =
  pd_status :: string

section \<open>Emitting\<close>

definition connected_ids :: "server \<Rightarrow> string set" where
  "connected_ids s = set (map sock_id (sockets s))"

text \<open>\<open>socket.emit(ev, payload)\<close>: to this socket only.\<close>

definition socket_emit :: "socket \<Rightarrow> event \<Rightarrow> server \<Rightarrow> server" where
  "socket_emit sock ev s = s\<lparr>outbox := outbox s @ [({sock_id sock}, ev)]\<rparr>"

text \<open>\<open>io.emit(ev, payload)\<close>: to every connected socket.\<close>

definition io_emit :: "event \<Rightarrow> server \<Rightarrow> server" where
  "io_emit ev s = s\<lparr>outbox := outbox s @ [(connected_ids s, ev)]\<rparr>"

text \<open>\<open>io.to(room).emit(ev, payload)\<close>: to every socket in the room.\<close>

definition io_to_emit :: "string \<Rightarrow> event \<Rightarrow> server \<Rightarrow> server" where
  "io_to_emit room ev s = s\<lparr>outbox := outbox s @ [(rooms s room, ev)]\<rparr>"

text \<open>\<open>socket.to(room).emit(ev, payload)\<close>: to the room except this socket.\<close>

definition socket_to_emit :: "socket \<Rightarrow> string \<Rightarrow> event \<Rightarrow> server \<Rightarrow> server" where
  "socket_to_emit sock room ev s =
     s\<lparr>outbox := outbox s @ [(rooms s room - {sock_id sock}, ev)]\<rparr>"

text \<open>\<open>SocketManager.emitToChannel\<close>.\<close>

definition emitToChannel :: "string \<Rightarrow> event \<Rightarrow> server \<Rightarrow> server" where
  "emitToChannel channelId ev s = io_to_emit (''channel:'' @ channelId) ev s"

text \<open>\<open>socket.join(room)\<close> and \<open>socket.leave(room)\<close>; the adapter keeps a set per room.\<close>

definition socket_join :: "faults \<Rightarrow> socket \<Rightarrow> string \<Rightarrow> server \<Rightarrow> thrown + server" where
  "socket_join flt sock room s =
     (case flt SocketJoin of
        Some e \<Rightarrow> Inl e
      | None \<Rightarrow> Inr (s\<lparr>rooms := (rooms s)(room := insert (sock_id sock) (rooms s room))\<rparr>))"

definition socket_leave :: "faults \<Rightarrow> socket \<Rightarrow> string \<Rightarrow> server \<Rightarrow> thrown + server" where
  "socket_leave flt sock room s =
     (case flt SocketLeave of
        Some e \<Rightarrow> Inl e
      | None \<Rightarrow> Inr (s\<lparr>rooms := (rooms s)(room := rooms s room - {sock_id sock})\<rparr>))"

section \<open>Repositories\<close>

text \<open>
  \<open>ChannelRepository.isUserMember\<close>: the count of channels with this id that have
  this member is positive.
\<close>

definition is_member :: "server \<Rightarrow> string \<Rightarrow> string \<Rightarrow> bool" where
  "is_member s channelId userId =
     (0 < length (filter (\<lambda>c. channel_id c = channelId \<and> userId \<in> set (members c)) (channels s)))"

definition isUserMember :: "faults \<Rightarrow> string \<Rightarrow> string \<Rightarrow> server \<Rightarrow> thrown + bool" where
  "isUserMember flt channelId userId s =
     (case flt IsUserMember of
        Some e \<Rightarrow> Inl e
      | None \<Rightarrow> Inr (is_member s channelId userId))"

text \<open>
  \<open>ChannelRepository.findUserChannels\<close>: the active, unarchived channels the user is a
  member of (the order by \<open>lastMessageAt\<close> is not kept: the caller only joins rooms).
\<close>

definition findUserChannels :: "faults \<Rightarrow> string \<Rightarrow> server \<Rightarrow> thrown + channel list" where
  "findUserChannels flt userId s =
     (case flt FindUserChannels of
        Some e \<Rightarrow> Inl e
      | None \<Rightarrow> Inr (filter (\<lambda>c. userId \<in> set (members c) \<and> isActive c \<and> \<not> isArchived c)
                         (channels s)))"

text \<open>\<open>ChannelRepository.incrementMessageCount\<close>.\<close>

definition incrementMessageCount :: "faults \<Rightarrow> nat \<Rightarrow> string \<Rightarrow> server \<Rightarrow> thrown + server" where
  "incrementMessageCount flt now channelId s =
     (case flt IncrementMessageCount of
        Some e \<Rightarrow> Inl e
      | None \<Rightarrow> Inr (s\<lparr>channels :=
          map (\<lambda>c. if channel_id c = channelId
                   then c\<lparr>messageCount := messageCount c + 1, lastMessageAt := Some now\<rparr>
                   else c) (channels s)\<rparr>))"

text \<open>The values of the enum \<open>MessageType\<close>, the type of the column \<open>Message.type\<close>.\<close>

definition MessageType :: "string list" where
  "MessageType = [''text'', ''file'', ''image'', ''video'', ''audio'', ''system'', ''task'']"

text \<open>
  \<open>BaseRepository.create\<close> on messages: the saved entity gets a generated key, here
  the number of rows stored before it. The service hands the client's \<open>type\<close> on
  unchecked (\<open>type as any\<close>); the insert of a value outside the enum is refused by
  the database and \<open>create\<close> rethrows.
\<close>

definition message_create ::
  "faults \<Rightarrow> string \<Rightarrow> string \<Rightarrow> string \<Rightarrow> string \<Rightarrow> server \<Rightarrow> (thrown + message) \<times> server" where
  "message_create flt senderId channelId content type s =
     (case flt MessageCreate of
        Some e \<Rightarrow> (Inl e, s)
      | None \<Rightarrow>
          if type \<notin> set MessageType
          then (Inl (ErrorObj (''invalid input value for enum messages_type_enum: ''
                              @ [CHR 0x22] @ type @ [CHR 0x22])), s)
          else
            (let m = \<lparr>msg_id = length (messages s), msg_senderId = senderId,
                      msg_channelId = channelId, msg_content = content, msg_type = type\<rparr>
             in (Inr m, s\<lparr>messages := messages s @ [m]\<rparr>)))"

definition mention_create :: "faults \<Rightarrow> mention \<Rightarrow> server \<Rightarrow> (thrown + mention) \<times> server" where
  "mention_create flt m s =
     (case flt MentionCreate of
        Some e \<Rightarrow> (Inl e, s)
      | None \<Rightarrow> (Inr m, s\<lparr>mentions := mentions s @ [m]\<rparr>))"

text \<open>\<open>UserRepository.findByUsername\<close>: the first row with this username, or null.\<close>

definition findByUsername :: "faults \<Rightarrow> string \<Rightarrow> server \<Rightarrow> thrown + user option" where
  "findByUsername flt name s =
     (case flt FindByUsername of
        Some e \<Rightarrow> Inl e
      | None \<Rightarrow> Inr (find (\<lambda>u. username u = name) (users s)))"

text \<open>
  \<open>UserRepository.updateOnlineStatus\<close> (through \<open>UserService.updateOnlineStatus\<close>):
  writes \<open>isOnline\<close> and \<open>lastSeenAt\<close> of the rows with this id.
\<close>

definition updateOnlineStatus :: "faults \<Rightarrow> nat \<Rightarrow> string \<Rightarrow> bool \<Rightarrow> server \<Rightarrow> thrown + server" where
  "updateOnlineStatus flt now userId online s =
     (case flt UpdateOnlineStatus of
        Some e \<Rightarrow> Inl e
      | None \<Rightarrow> Inr (s\<lparr>users :=
          map (\<lambda>u. if user_id u = userId then u\<lparr>isOnline := online, lastSeenAt := Some now\<rparr> else u)
              (users s)\<rparr>))"

section \<open>Mentions\<close>

definition mention_char :: "char \<Rightarrow> bool" where
  "mention_char c =
     (let n = of_char c :: nat
      in (97 \<le> n \<and> n \<le> 122) \<or> (65 \<le> n \<and> n \<le> 90) \<or> (48 \<le> n \<and> n \<le> 57)
         \<or> c = CHR ''_'' \<or> c = CHR ''-'')"

text \<open>
  \<open>ValidationUtil.extractMentions\<close>: the matches of \<open>/@([a-zA-Z0-9_-]{3,30})/g\<close>, left
  to right and greedy, without the leading \<open>@\<close>.
\<close>

fun extractMentions :: "string \<Rightarrow> string list" where
  "extractMentions [] = []"
| "extractMentions (c # cs) =
     (if c = CHR ''@''
      then (let name = take 30 (takeWhile mention_char cs)
            in if 3 \<le> length name
               then name # extractMentions (drop (length name) cs)
               else extractMentions cs)
      else extractMentions cs)"

text \<open>\<open>String.prototype.indexOf\<close>: the first position of the pattern, or -1.\<close>

fun indexOf :: "string \<Rightarrow> string \<Rightarrow> int" where
  "indexOf [] pat = (if pat = [] then 0 else - 1)"
| "indexOf (c # cs) pat =
     (if prefix pat (c # cs) then 0
      else (let r = indexOf cs pat in if r < 0 then - 1 else r + 1))"

text \<open>The loop of \<open>MessageService.sendMessage\<close> over the extracted mentions.\<close>

fun create_mentions ::
  "faults \<Rightarrow> message \<Rightarrow> string \<Rightarrow> string \<Rightarrow> string list \<Rightarrow> server \<Rightarrow> (thrown + unit) \<times> server" where
  "create_mentions flt msg senderId content [] s = (Inr (), s)"
| "create_mentions flt msg senderId content (name # rest) s =
     (case findByUsername flt name s of
        Inl e \<Rightarrow> (Inl e, s)
      | Inr None \<Rightarrow> create_mentions flt msg senderId content rest s
      | Inr (Some mentionedUser) \<Rightarrow>
          (case mention_create flt
                  \<lparr>mn_messageId = msg_id msg, mn_mentionedUserId = user_id mentionedUser,
                   mn_mentionedById = senderId, mn_type = ''user'',
                   mn_mentionText = CHR ''@'' # name,
                   mn_positionStart = indexOf content (CHR ''@'' # name),
                   mn_positionEnd = indexOf content (CHR ''@'' # name) + int (length name) + 1\<rparr> s of
             (Inl e, s') \<Rightarrow> (Inl e, s')
           | (Inr created, s') \<Rightarrow> create_mentions flt msg senderId content rest s'))"

section \<open>MessageService\<close>

text \<open>
  \<open>MessageService.sendMessage\<close>. The result is what the call returns or throws,
  together with the state it leaves behind; \<open>type\<close> defaults to \<open>text\<close>.
\<close>

definition sendMessage ::
  "faults \<Rightarrow> nat \<Rightarrow> string \<Rightarrow> string \<Rightarrow> string \<Rightarrow> string option \<Rightarrow> server
     \<Rightarrow> (thrown + message) \<times> server" where
  "sendMessage flt now senderId channelId content type s =
     (case isUserMember flt channelId senderId s of
        Inl e \<Rightarrow> (Inl e, s)
      | Inr isMember \<Rightarrow>
          if \<not> isMember then (Inl (ErrorObj ''Not a member of this channel''), s)
          else
            (case message_create flt senderId channelId content
                    (case type of None \<Rightarrow> ''text'' | Some t \<Rightarrow> t) s of
               (Inl e, s1) \<Rightarrow> (Inl e, s1)
             | (Inr msg, s1) \<Rightarrow>
                 (case create_mentions flt msg senderId content (extractMentions content) s1 of
                    (Inl e, s2) \<Rightarrow> (Inl e, s2)
                  | (Inr u, s2) \<Rightarrow>
                      (case incrementMessageCount flt now channelId s2 of
                         Inl e \<Rightarrow> (Inl e, s2)
                       | Inr s3 \<Rightarrow> (Inr msg, emitToChannel channelId (message_new msg) s3)))))"

section \<open>SocketEvents\<close>

text \<open>
  Destructuring a missing (undefined) payload throws a \<open>TypeError\<close>; the engine's
  message names the first property taken from \<open>data\<close>, which is \<open>channelId\<close> in
  each handler that catches it.
\<close>

definition destructure_error :: thrown where
  "destructure_error =
     ErrorObj ''Cannot destructure property 'channelId' of 'data' as it is undefined.''"

text \<open>\<open>SocketEvents.handleSendMessage\<close>.\<close>

definition handleSendMessage ::
  "faults \<Rightarrow> nat \<Rightarrow> socket \<Rightarrow> send_data option \<Rightarrow> server \<Rightarrow> server" where
  "handleSendMessage flt now sock data s =
     (case data of
        None \<Rightarrow>
          socket_emit sock
            (error_event ''message:send'' (error_message destructure_error ''Failed to send message'')) s
      | Some d \<Rightarrow>
          (case sendMessage flt now (sock_userId sock) (sd_channelId d) (sd_content d) (sd_type d) s of
             (Inl e, s') \<Rightarrow>
               socket_emit sock
                 (error_event ''message:send'' (error_message e ''Failed to send message'')) s'
           | (Inr msg, s') \<Rightarrow>
               io_to_emit (''channel:'' @ sd_channelId d) (message_new msg) s'))"

text \<open>\<open>SocketEvents.handleTyping\<close>: no \<open>try\<close>, a throw is an uncaught exception.\<close>

definition handleTyping :: "socket \<Rightarrow> typing_data option \<Rightarrow> server \<Rightarrow> server" where
  "handleTyping sock data s =
     (case data of
        None \<Rightarrow> s\<lparr>exited := True\<rparr>
      | Some d \<Rightarrow>
          socket_to_emit sock (''channel:'' @ td_channelId d)
            (user_typing (sock_userId sock) (td_channelId d) (td_isTyping d)) s)"

text \<open>\<open>SocketEvents.handleMessageRead\<close>.\<close>

definition handleMessageRead :: "socket \<Rightarrow> read_data option \<Rightarrow> server \<Rightarrow> server" where
  "handleMessageRead sock data s =
     (case data of
        None \<Rightarrow> s\<lparr>exited := True\<rparr>
      | Some d \<Rightarrow>
          socket_to_emit sock (''channel:'' @ rd_channelId d)
            (message_read (sock_userId sock) (rd_messageId d)) s)"

text \<open>\<open>SocketEvents.handleJoinChannel\<close>.\<close>

definition handleJoinChannel :: "faults \<Rightarrow> socket \<Rightarrow> channel_data option \<Rightarrow> server \<Rightarrow> server" where
  "handleJoinChannel flt sock data s =
     (case data of
        None \<Rightarrow>
          socket_emit sock
            (error_event ''channel:join'' (error_message destructure_error ''Failed to join channel'')) s
      | Some d \<Rightarrow>
          (case socket_join flt sock (''channel:'' @ cd_channelId d) s of
             Inl e \<Rightarrow>
               socket_emit sock
                 (error_event ''channel:join'' (error_message e ''Failed to join channel'')) s
           | Inr s' \<Rightarrow> socket_emit sock (channel_joined (cd_channelId d)) s'))"

text \<open>\<open>SocketEvents.handleLeaveChannel\<close>.\<close>

definition handleLeaveChannel :: "faults \<Rightarrow> socket \<Rightarrow> channel_data option \<Rightarrow> server \<Rightarrow> server" where
  "handleLeaveChannel flt sock data s =
     (case data of
        None \<Rightarrow>
          socket_emit sock
            (error_event ''channel:leave'' (error_message destructure_error ''Failed to leave channel'')) s
      | Some d \<Rightarrow>
          (case socket_leave flt sock (''channel:'' @ cd_channelId d) s of
             Inl e \<Rightarrow>
               socket_emit sock
                 (error_event ''channel:leave'' (error_message e ''Failed to leave channel'')) s
           | Inr s' \<Rightarrow> socket_emit sock (channel_left (cd_channelId d)) s'))"

text \<open>
  \<open>SocketEvents.handlePresenceUpdate\<close>: an async function without \<open>try\<close>, a throw
  is an unhandled rejection.
\<close>

definition handlePresenceUpdate :: "nat \<Rightarrow> socket \<Rightarrow> presence_data option \<Rightarrow> server \<Rightarrow> server" where
  "handlePresenceUpdate now sock data s =
     (case data of
        None \<Rightarrow> s\<lparr>exited := True\<rparr>
      | Some d \<Rightarrow> io_emit (user_presence (sock_userId sock) (pd_status d) now) s)"

text \<open>The loop of \<open>handleConnection\<close> joining the rooms of the user's channels.\<close>

fun join_all :: "faults \<Rightarrow> socket \<Rightarrow> string list \<Rightarrow> server \<Rightarrow> thrown + server" where
  "join_all flt sock [] s = Inr s"
| "join_all flt sock (r # rs) s =
     (case socket_join flt sock r s of
        Inl e \<Rightarrow> Inl e
      | Inr s' \<Rightarrow> join_all flt sock rs s')"

text \<open>
  \<open>SocketEvents.handleConnection\<close>: an async function without \<open>try\<close>; what it has
  done before a throw stays done.
\<close>

definition handleConnection :: "faults \<Rightarrow> nat \<Rightarrow> socket \<Rightarrow> server \<Rightarrow> server" where
  "handleConnection flt now sock s =
     (case socket_join flt sock (''user:'' @ sock_userId sock) s of
        Inl e \<Rightarrow> s\<lparr>exited := True\<rparr>
      | Inr s1 \<Rightarrow>
          (case updateOnlineStatus flt now (sock_userId sock) True s1 of
             Inl e \<Rightarrow> s1\<lparr>exited := True\<rparr>
           | Inr s2 \<Rightarrow>
               (case findUserChannels flt (sock_userId sock) s2 of
                  Inl e \<Rightarrow> s2\<lparr>exited := True\<rparr>
                | Inr chans \<Rightarrow>
                    (case join_all flt sock (map (\<lambda>c. ''channel:'' @ channel_id c) chans) s2 of
                       Inl e \<Rightarrow> s2\<lparr>exited := True\<rparr>
                     | Inr s3 \<Rightarrow> io_emit (user_online (sock_userId sock)) s3))))"

text \<open>\<open>SocketEvents.handleDisconnect\<close>.\<close>

definition handleDisconnect :: "faults \<Rightarrow> nat \<Rightarrow> socket \<Rightarrow> server \<Rightarrow> server" where
  "handleDisconnect flt now sock s =
     (case updateOnlineStatus flt now (sock_userId sock) False s of
        Inl e \<Rightarrow> s\<lparr>exited := True\<rparr>
      | Inr s1 \<Rightarrow> io_emit (user_offline (sock_userId sock)) s1)"

section \<open>Handshake authentication\<close>

record jwt_payload =
  jwt_userId :: string
  jwt_email :: string
  jwt_username :: string
  jwt_role :: string
  jwt_type :: string

text \<open>
  What \<open>jwt.verify\<close> (the signature check of the token library) answers; a parameter
  of the model.
\<close>

datatype jwt_result =
    Decoded jwt_payload
  | TokenExpiredError
  | JsonWebTokenError string
  | OtherFailure thrown

text \<open>\<open>verifyAccessToken\<close> of the JWT configuration.\<close>

definition verifyAccessToken :: "(string \<Rightarrow> jwt_result) \<Rightarrow> string \<Rightarrow> thrown + jwt_payload" where
  "verifyAccessToken jwt token =
     (case jwt token of
        Decoded decoded \<Rightarrow>
          if jwt_type decoded \<noteq> ''access'' then Inl (ErrorObj ''Invalid token type'')
          else Inr decoded
      | TokenExpiredError \<Rightarrow> Inl (ErrorObj ''Token expired'')
      | JsonWebTokenError m \<Rightarrow> Inl (ErrorObj ''Invalid token'')
      | OtherFailure e \<Rightarrow> Inl e)"

text \<open>
  The class \<open>TokenManager\<close> as the receiver of a static call: what its
  \<open>isTokenBlacklisted\<close> answers (the Redis lookup; its own failures answer false).
\<close>

record token_manager =
  isTokenBlacklisted :: "string \<Rightarrow> bool"

text \<open>
  \<open>TokenManager.verifyToken\<close>, a static method that reads \<open>this.isTokenBlacklisted\<close>.
  The receiver is \<open>None\<close> when the function is called on its own: \<open>this\<close> is then
  undefined, the read throws a \<open>TypeError\<close> inside the \<open>try\<close>, and the \<open>catch\<close>
  rethrows it.
\<close>

definition verifyToken ::
  "(string \<Rightarrow> jwt_result) \<Rightarrow> token_manager option \<Rightarrow> string \<Rightarrow> thrown + jwt_payload" where
  "verifyToken jwt this token =
     (case this of
        None \<Rightarrow>
          Inl (ErrorObj ''Cannot read properties of undefined (reading 'isTokenBlacklisted')'')
      | Some tm \<Rightarrow>
          if isTokenBlacklisted tm token then Inl (ErrorObj ''Token has been revoked'')
          else verifyAccessToken jwt token)"

text \<open>
  The named export \<open>export const { ..., verifyToken, ... } = TokenManager\<close>, which the
  socket configuration imports: the function taken off the class, called without a
  receiver.
\<close>

definition verifyToken_export :: "(string \<Rightarrow> jwt_result) \<Rightarrow> string \<Rightarrow> thrown + jwt_payload" where
  "verifyToken_export jwt token = verifyToken jwt None token"

record handshake =
  auth_token :: "string option"
  authorization :: "string option"

text \<open>\<open>String.prototype.replace\<close> with a string pattern: the first occurrence only.\<close>

fun replace_first :: "string \<Rightarrow> string \<Rightarrow> string \<Rightarrow> string" where
  "replace_first pat rep [] = (if pat = [] then rep else [])"
| "replace_first pat rep (c # cs) =
     (if prefix pat (c # cs) then rep @ drop (length pat) (c # cs)
      else c # replace_first pat rep cs)"

text \<open>
  \<open>socket.handshake.auth.token || socket.handshake.headers.authorization?.replace('Bearer ', '')\<close>:
  the empty string is falsy.
\<close>

definition handshake_token :: "handshake \<Rightarrow> string option" where
  "handshake_token hs =
     (case auth_token hs of
        Some t \<Rightarrow>
          if t \<noteq> [] then Some t
          else map_option (replace_first ''Bearer '' []) (authorization hs)
      | None \<Rightarrow> map_option (replace_first ''Bearer '' []) (authorization hs))"

text \<open>
  The middleware installed by \<open>initializeSocketIO\<close> with \<open>io.use\<close>: \<open>Inl\<close> is the
  error handed to \<open>next\<close>, \<open>Inr\<close> the socket with the user attached.
\<close>

definition authMiddleware :: "(string \<Rightarrow> jwt_result) \<Rightarrow> string \<Rightarrow> handshake \<Rightarrow> thrown + socket" where
  "authMiddleware jwt sid hs =
     (case handshake_token hs of
        None \<Rightarrow> Inl (ErrorObj ''Authentication token is required'')
      | Some token \<Rightarrow>
          if token = [] then Inl (ErrorObj ''Authentication token is required'')
          else
            (case verifyToken_export jwt token of
               Inl e \<Rightarrow> Inl (ErrorObj ''Authentication failed'')
             | Inr decoded \<Rightarrow> Inr \<lparr>sock_id = sid, sock_userId = jwt_userId decoded\<rparr>))"

section \<open>Registration and dispatch\<close>

datatype inbound =
    In_message_send "send_data option"
  | In_message_typing "typing_data option"
  | In_message_read "read_data option"
  | In_channel_join "channel_data option"
  | In_channel_leave "channel_data option"
  | In_presence_update "presence_data option"

text \<open>
  \<open>SocketEvents.registerEvents\<close>: runs \<open>handleConnection\<close> and installs one listener
  per event name; \<open>on_event\<close> is the table of those listeners.
\<close>

definition registerEvents :: "faults \<Rightarrow> nat \<Rightarrow> socket \<Rightarrow> server \<Rightarrow> server" where
  "registerEvents flt now sock s = handleConnection flt now sock s"

fun on_event :: "faults \<Rightarrow> nat \<Rightarrow> socket \<Rightarrow> inbound \<Rightarrow> server \<Rightarrow> server" where
  "on_event flt now sock (In_message_send data) s = handleSendMessage flt now sock data s"
| "on_event flt now sock (In_message_typing data) s = handleTyping sock data s"
| "on_event flt now sock (In_message_read data) s = handleMessageRead sock data s"
| "on_event flt now sock (In_channel_join data) s = handleJoinChannel flt sock data s"
| "on_event flt now sock (In_channel_leave data) s = handleLeaveChannel flt sock data s"
| "on_event flt now sock (In_presence_update data) s = handlePresenceUpdate now sock data s"

text \<open>
  The \<open>connection\<close> listener of \<open>App.initializeSocketIO\<close> for a socket that the
  middleware has let through: the socket is in the namespace and \<open>registerEvents\<close>
  runs.
\<close>

definition register :: "faults \<Rightarrow> nat \<Rightarrow> socket \<Rightarrow> server \<Rightarrow> server" where
  "register flt now sock s = registerEvents flt now sock (s\<lparr>sockets := sockets s @ [sock]\<rparr>)"

text \<open>
  A connection attempt: the middleware decides; a refused handshake leaves the server
  as it was, and only a socket the middleware lets through reaches the listener.
\<close>

definition connection ::
  "(string \<Rightarrow> jwt_result) \<Rightarrow> faults \<Rightarrow> nat \<Rightarrow> string \<Rightarrow> handshake \<Rightarrow> server \<Rightarrow> server" where
  "connection jwt flt now sid hs s =
     (case authMiddleware jwt sid hs of
        Inl e \<Rightarrow> s
      | Inr sock \<Rightarrow> register flt now sock s)"

text \<open>
  An inbound event on the connection with this id: the listeners exist only on a
  registered socket.
\<close>

definition receive :: "faults \<Rightarrow> nat \<Rightarrow> string \<Rightarrow> inbound \<Rightarrow> server \<Rightarrow> server" where
  "receive flt now sid ev s =
     (case find (\<lambda>k. sock_id k = sid) (sockets s) of
        None \<Rightarrow> s
      | Some sock \<Rightarrow> on_event flt now sock ev s)"

text \<open>
  A disconnect of the socket with this id: the transport removes the socket from the
  namespace and from its rooms, then fires the \<open>disconnect\<close> listener once.
\<close>

definition disconnect :: "faults \<Rightarrow> nat \<Rightarrow> string \<Rightarrow> server \<Rightarrow> server" where
  "disconnect flt now sid s =
     (case find (\<lambda>k. sock_id k = sid) (sockets s) of
        None \<Rightarrow> s
      | Some sock \<Rightarrow>
          handleDisconnect flt now sock
            (s\<lparr>sockets := filter (\<lambda>k. sock_id k \<noteq> sid) (sockets s),
               rooms := (\<lambda>r. rooms s r - {sid})\<rparr>))"

text \<open>
  What disconnect processing hands back: \<open>handleDisconnect\<close> is \<open>Promise<void>\<close>
  and the listener's result is dropped, so there is never a set of room ids.
\<close>

definition disconnect_returns :: "faults \<Rightarrow> nat \<Rightarrow> string \<Rightarrow> server \<Rightarrow> string set option" where
  "disconnect_returns flt now sid s = None"

section \<open>Presence\<close>

text \<open>The number of live connections of a user, and the stored presence flag.\<close>

definition connectionCount :: "server \<Rightarrow> string \<Rightarrow> nat" where
  "connectionCount s u = length (filter (\<lambda>k. sock_userId k = u) (sockets s))"

definition stored_online :: "server \<Rightarrow> string \<Rightarrow> bool" where
  "stored_online s u = list_ex (\<lambda>r. user_id r = u \<and> isOnline r) (users s)"

text \<open>
  \<open>SocketManager.getUserSockets\<close> and \<open>SocketManager.isUserOnline\<close>: the sockets in
  the user's personal room, and whether there is one.
\<close>

definition getUserSockets :: "server \<Rightarrow> string \<Rightarrow> string set" where
  "getUserSockets s userId = rooms s (''user:'' @ userId)"

definition isUserOnline :: "server \<Rightarrow> string \<Rightarrow> bool" where
  "isUserOnline s userId = (getUserSockets s userId \<noteq> {})"

section \<open>What a connection receives\<close>

text \<open>The events delivered to one socket id, in order, and how often an event was emitted.\<close>

definition received :: "server \<Rightarrow> string \<Rightarrow> event list" where
  "received s sid = map snd (filter (\<lambda>p. sid \<in> fst p) (outbox s))"

definition count_event :: "event \<Rightarrow> server \<Rightarrow> nat" where
  "count_event ev s = length (filter (\<lambda>p. snd p = ev) (outbox s))"

text \<open>The statuses announced for a user by \<open>user:presence\<close> events, in order.\<close>

fun presence_of :: "string \<Rightarrow> event \<Rightarrow> string list" where
  "presence_of u (user_presence x status t) = (if x = u then [status] else [])"
| "presence_of u ev = []"

definition announced :: "server \<Rightarrow> string \<Rightarrow> string list" where
  "announced s u = concat (map (\<lambda>p. presence_of u (snd p)) (outbox s))"

section \<open>A small deployment\<close>

definition sockA :: socket where
  "sockA = \<lparr>sock_id = ''A'', sock_userId = ''u1''\<rparr>"

definition sockB :: socket where
  "sockB = \<lparr>sock_id = ''B'', sock_userId = ''u2''\<rparr>"

definition server0 :: server where
  "server0 =
     \<lparr>sockets = [sockA, sockB],
      rooms = (\<lambda>r. {})(''channel:r1'' := {''A'', ''B''}, ''channel:r2'' := {''B''},
                        ''user:u1'' := {''A''}, ''user:u2'' := {''B''}),
      users = [\<lparr>user_id = ''u1'', username = ''alice'', isOnline = True, lastSeenAt = None\<rparr>,
               \<lparr>user_id = ''u2'', username = ''bob'', isOnline = True, lastSeenAt = None\<rparr>],
      channels = [\<lparr>channel_id = ''r1'', members = [''u1'', ''u2''], isActive = True,
                   isArchived = False, messageCount = 0, lastMessageAt = None\<rparr>,
                  \<lparr>channel_id = ''r2'', members = [''u2''], isActive = True,
                   isArchived = False, messageCount = 0, lastMessageAt = None\<rparr>],
      messages = [], mentions = [], outbox = [], exited = False\<rparr>"

text \<open>An empty server with the same tables, all users stored offline.\<close>

definition server_idle :: server where
  "server_idle =
     server0\<lparr>sockets := [], rooms := (\<lambda>r. {}),
             users := map (\<lambda>u. u\<lparr>isOnline := False\<rparr>) (users server0)\<rparr>"

text \<open>A token library that accepts the tokens \<open>tok-u1\<close> and \<open>tok-u2\<close>.\<close>

definition jwt0 :: "string \<Rightarrow> jwt_result" where
  "jwt0 t =
     (if t = ''tok-u1'' then Decoded \<lparr>jwt_userId = ''u1'', jwt_email = ''a@x'',
          jwt_username = ''alice'', jwt_role = ''member'', jwt_type = ''access''\<rparr>
      else if t = ''tok-u2'' then Decoded \<lparr>jwt_userId = ''u2'', jwt_email = ''b@x'',
          jwt_username = ''bob'', jwt_role = ''member'', jwt_type = ''access''\<rparr>
      else JsonWebTokenError ''jwt malformed'')"

definition hs_header_u2 :: handshake where
  "hs_header_u2 = \<lparr>auth_token = None, authorization = Some ''Bearer tok-u2''\<rparr>"

definition hs_none :: handshake where
  "hs_none = \<lparr>auth_token = None, authorization = None\<rparr>"

definition hs_bad :: handshake where
  "hs_bad = \<lparr>auth_token = Some ''forged'', authorization = None\<rparr>"

text \<open>
  User \<open>u1\<close> has two registered connections, \<open>A\<close> and \<open>A2\<close>, and then loses
  \<open>A\<close>.
\<close>

definition sockA2 :: socket where
  "sockA2 = \<lparr>sock_id = ''A2'', sock_userId = ''u1''\<rparr>"

definition two_tabs :: server where
  "two_tabs =
     disconnect no_faults 3 ''A'' (register no_faults 2 sockA2 (register no_faults 1 sockA server_idle))"

text \<open>Connection \<open>A\<close> of the small deployment has gone away.\<close>

definition server_A_gone :: server where
  "server_A_gone = disconnect no_faults 1 ''A'' server0"

text \<open>A fault plan where the adapter refuses to join or leave a room.\<close>

definition adapter_down :: faults where
  "adapter_down = (\<lambda>c. if c = SocketJoin \<or> c = SocketLeave then Some (ErrorObj ''adapter down'') else None)"

text \<open>A fault plan where the update of the channel's message count fails.\<close>

definition count_down :: faults where
  "count_down = (\<lambda>c. if c = IncrementMessageCount then Some (ErrorObj ''deadlock detected'') else None)"

text \<open>A fault plan where saving a message fails.\<close>

definition db_down :: faults where
  "db_down = (\<lambda>c. if c = MessageCreate then Some (ErrorObj ''connection terminated'') else None)"

section \<open>Frame lemmas: what the service and the handlers leave untouched\<close>

lemma create_mentions_frame:
  "create_mentions flt msg senderId content names s = (r, s') \<Longrightarrow>
     outbox s' = outbox s \<and> sockets s' = sockets s \<and> rooms s' = rooms s
     \<and> exited s' = exited s \<and> messages s' = messages s \<and> users s' = users s
     \<and> channels s' = channels s"
proof (induction names arbitrary: s)
  case Nil
  then show ?case by simp
next
  case (Cons name rest)
  then show ?case
    by (auto simp: findByUsername_def mention_create_def
             split: option.splits sum.splits prod.splits)
qed

lemma create_mentions_no_faults:
  "flt FindByUsername = None \<Longrightarrow> flt MentionCreate = None \<Longrightarrow>
     \<exists>s'. create_mentions flt msg senderId content names s = (Inr (), s')"
proof (induction names arbitrary: s)
  case Nil
  then show ?case by simp
next
  case (Cons name rest)
  then show ?case
    by (simp add: findByUsername_def mention_create_def split: option.splits)
qed

lemma sendMessage_throws:
  assumes "sendMessage flt now senderId channelId content type s = (Inl e, s')"
  shows "outbox s' = outbox s \<and> sockets s' = sockets s \<and> rooms s' = rooms s
         \<and> exited s' = exited s \<and> users s' = users s"
  using assms
  unfolding sendMessage_def isUserMember_def message_create_def incrementMessageCount_def
  by (auto split: option.splits sum.splits prod.splits if_splits
           dest!: create_mentions_frame simp: Let_def)

lemma sendMessage_returns:
  assumes "sendMessage flt now senderId channelId content type s = (Inr msg, s')"
  shows "outbox s' = outbox s @ [(rooms s (''channel:'' @ channelId), message_new msg)]
         \<and> sockets s' = sockets s \<and> rooms s' = rooms s \<and> exited s' = exited s
         \<and> users s' = users s
         \<and> messages s' = messages s @ [msg]
         \<and> msg = \<lparr>msg_id = length (messages s), msg_senderId = senderId,
                   msg_channelId = channelId, msg_content = content,
                   msg_type = (case type of None \<Rightarrow> ''text'' | Some t \<Rightarrow> t)\<rparr>
         \<and> is_member s channelId senderId"
  using assms
  unfolding sendMessage_def isUserMember_def message_create_def incrementMessageCount_def
    emitToChannel_def io_to_emit_def
  by (auto split: option.splits sum.splits prod.splits if_splits
           dest!: create_mentions_frame simp: Let_def)

lemma sendMessage_succeeds:
  assumes mem: "is_member s channelId senderId"
    and ty: "(case type of None \<Rightarrow> ''text'' | Some t \<Rightarrow> t) \<in> set MessageType"
    and f1: "flt IsUserMember = None" and f2: "flt MessageCreate = None"
    and f3: "flt FindByUsername = None" and f4: "flt MentionCreate = None"
    and f5: "flt IncrementMessageCount = None"
  shows "\<exists>msg s'. sendMessage flt now senderId channelId content type s = (Inr msg, s')"
proof -
  let ?m = "\<lparr>msg_id = length (messages s), msg_senderId = senderId,
                   msg_channelId = channelId, msg_content = content,
                   msg_type = (case type of None \<Rightarrow> ''text'' | Some t \<Rightarrow> t)\<rparr>"
  obtain s2 where "create_mentions flt ?m senderId content (extractMentions content)
        (s\<lparr>messages := messages s @ [?m]\<rparr>) = (Inr (), s2)"
    using create_mentions_no_faults[of flt ?m senderId content "extractMentions content"
        "s\<lparr>messages := messages s @ [?m]\<rparr>"] f3 f4 by blast
  then show ?thesis using mem ty f1 f2 f5
    unfolding sendMessage_def isUserMember_def message_create_def incrementMessageCount_def
    by (simp add: Let_def)
qed

lemma sendMessage_no_faults:
  assumes "is_member s channelId senderId"
    and "(case type of None \<Rightarrow> ''text'' | Some t \<Rightarrow> t) \<in> set MessageType"
  shows "\<exists>msg s'. sendMessage no_faults now senderId channelId content type s = (Inr msg, s')"
  using sendMessage_succeeds[OF assms, of no_faults] by (simp add: no_faults_def)

lemma handleSendMessage_frame:
  "sockets (handleSendMessage flt now sock data s) = sockets s
   \<and> rooms (handleSendMessage flt now sock data s) = rooms s
   \<and> exited (handleSendMessage flt now sock data s) = exited s"
proof (cases data)
  case None
  then show ?thesis by (simp add: handleSendMessage_def socket_emit_def)
next
  case (Some d)
  obtain r s1 where sm:
    "sendMessage flt now (sock_userId sock) (sd_channelId d) (sd_content d) (sd_type d) s = (r, s1)"
    by (cases "sendMessage flt now (sock_userId sock) (sd_channelId d) (sd_content d) (sd_type d) s")
  show ?thesis
  proof (cases r)
    case (Inl e)
    with sm sendMessage_throws[of flt now _ _ _ _ s e s1] Some show ?thesis
      by (simp add: handleSendMessage_def socket_emit_def)
  next
    case (Inr msg)
    with sm sendMessage_returns[of flt now _ _ _ _ s msg s1] Some show ?thesis
      by (simp add: handleSendMessage_def io_to_emit_def)
  qed
qed

lemma handleJoinChannel_frame:
  "sockets (handleJoinChannel flt sock data s) = sockets s
   \<and> exited (handleJoinChannel flt sock data s) = exited s"
  by (cases data; cases "flt SocketJoin")
     (simp_all add: handleJoinChannel_def socket_join_def socket_emit_def)

lemma handleLeaveChannel_frame:
  "sockets (handleLeaveChannel flt sock data s) = sockets s
   \<and> exited (handleLeaveChannel flt sock data s) = exited s"
  by (cases data; cases "flt SocketLeave")
     (simp_all add: handleLeaveChannel_def socket_leave_def socket_emit_def)

lemma on_event_sockets:
  "sockets (on_event flt now sock ev s) = sockets s"
proof (cases ev)
  case (In_message_send data)
  then show ?thesis using handleSendMessage_frame[of flt now sock data s] by simp
next
  case (In_message_typing data)
  then show ?thesis by (cases data) (simp_all add: handleTyping_def socket_to_emit_def)
next
  case (In_message_read data)
  then show ?thesis by (cases data) (simp_all add: handleMessageRead_def socket_to_emit_def)
next
  case (In_channel_join data)
  then show ?thesis using handleJoinChannel_frame[of flt sock data s] by simp
next
  case (In_channel_leave data)
  then show ?thesis using handleLeaveChannel_frame[of flt sock data s] by simp
next
  case (In_presence_update data)
  then show ?thesis by (cases data) (simp_all add: handlePresenceUpdate_def io_emit_def)
qed

lemma join_all_frame:
  "join_all flt sock rs s = Inr s' \<Longrightarrow>
     users s' = users s \<and> sockets s' = sockets s \<and> outbox s' = outbox s \<and> exited s' = exited s"
proof (induction rs arbitrary: s)
  case Nil
  then show ?case by simp
next
  case (Cons r rs)
  then show ?case
    by (auto simp: socket_join_def split: option.splits sum.splits)
qed

lemma handleConnection_sockets:
  "sockets (handleConnection flt now sock s) = sockets s"
proof -
  have "sockets (case join_all flt sock rs s2 of
                   Inl e \<Rightarrow> s2\<lparr>exited := True\<rparr>
                 | Inr s3 \<Rightarrow> io_emit ev s3) = sockets s2" for rs s2 ev
    using join_all_frame[of flt sock rs s2]
    by (cases "join_all flt sock rs s2") (simp_all add: io_emit_def)
  then show ?thesis
    by (cases "flt SocketJoin"; cases "flt UpdateOnlineStatus"; cases "flt FindUserChannels")
       (simp_all add: handleConnection_def socket_join_def updateOnlineStatus_def
          findUserChannels_def)
qed

lemma handleDisconnect_sockets:
  "sockets (handleDisconnect flt now sock s) = sockets s"
  by (cases "flt UpdateOnlineStatus")
     (simp_all add: handleDisconnect_def updateOnlineStatus_def io_emit_def)

lemma handleDisconnect_rooms:
  "rooms (handleDisconnect flt now sock s) = rooms s"
  by (cases "flt UpdateOnlineStatus")
     (simp_all add: handleDisconnect_def updateOnlineStatus_def io_emit_def)

lemma disconnect_twice:
  "disconnect flt t2 sid (disconnect flt t1 sid s) = disconnect flt t1 sid s"
proof (cases "find (\<lambda>k. sock_id k = sid) (sockets s)")
  case None
  then show ?thesis by (simp add: disconnect_def)
next
  case (Some sock)
  have "sockets (disconnect flt t1 sid s) = filter (\<lambda>k. sock_id k \<noteq> sid) (sockets s)"
    using Some by (simp add: disconnect_def handleDisconnect_sockets)
  then have "find (\<lambda>k. sock_id k = sid) (sockets (disconnect flt t1 sid s)) = None"
    by (simp add: find_None_iff)
  then show ?thesis by (simp add: disconnect_def[of flt t2])
qed

section \<open>Presence announcements\<close>

lemma registered_has_connection:
  "sock \<in> set (sockets s) \<Longrightarrow> 0 < connectionCount s (sock_userId sock)"
  by (auto simp: connectionCount_def filter_empty_conv)

lemma receive_presence_other_user:
  assumes "connectionCount s u = 0"
  shows "announced (receive flt now sid (In_presence_update data) s) u = announced s u"
proof (cases "find (\<lambda>k. sock_id k = sid) (sockets s)")
  case None
  then show ?thesis by (simp add: receive_def)
next
  case (Some sock)
  then have "sock \<in> set (sockets s)" by (auto simp: find_Some_iff)
  then have "sock_userId sock \<noteq> u"
    using assms registered_has_connection[of sock s] by auto
  then show ?thesis using Some
    by (cases data)
       (simp_all add: receive_def handlePresenceUpdate_def io_emit_def announced_def)
qed

section \<open>Sending messages\<close>

text \<open>
  Claim C1. A \<open>message:send\<close> whose sender is not a member of the target channel
  changes nothing but the emission log: no message row is created, nothing is broadcast
  to the channel room, the socket stays registered, and the only emission is one
  \<open>error\<close> event \<open>{event: "message:send", message}\<close> to the originating socket. This
  holds whatever the collaborators do; when the membership query answers, the message is
  the service's \<open>Not a member of this channel\<close>.
\<close>

theorem C1_non_member_send_rejected:
  assumes "\<not> is_member s (sd_channelId d) (sock_userId sock)"
  shows "\<exists>msg. handleSendMessage flt now sock (Some d) s
                 = s\<lparr>outbox := outbox s @ [({sock_id sock}, error_event ''message:send'' msg)]\<rparr>
               \<and> (flt IsUserMember = None \<longrightarrow> msg = ''Not a member of this channel'')"
proof (cases "flt IsUserMember")
  case None
  with assms have "sendMessage flt now (sock_userId sock) (sd_channelId d) (sd_content d) (sd_type d) s
      = (Inl (ErrorObj ''Not a member of this channel''), s)"
    by (simp add: sendMessage_def isUserMember_def)
  then show ?thesis
    by (intro exI[of _ "''Not a member of this channel''"])
       (simp add: handleSendMessage_def socket_emit_def)
next
  case (Some e)
  then have "sendMessage flt now (sock_userId sock) (sd_channelId d) (sd_content d) (sd_type d) s
      = (Inl e, s)"
    by (simp add: sendMessage_def isUserMember_def)
  then show ?thesis using Some
    by (intro exI[of _ "error_message e ''Failed to send message''"])
       (simp add: handleSendMessage_def socket_emit_def)
qed

text \<open>User \<open>u1\<close> on connection \<open>A\<close> sends to \<open>r2\<close>, where only \<open>u2\<close> is a member.\<close>

theorem C1_non_member_send_rejected_witness:
  "\<not> is_member server0 ''r2'' ''u1''
   \<and> handleSendMessage no_faults 5 sockA
        (Some \<lparr>sd_channelId = ''r2'', sd_content = ''hi'', sd_type = Some ''text''\<rparr>) server0
      = server0\<lparr>outbox := [({''A''}, error_event ''message:send'' ''Not a member of this channel'')]\<rparr>"
proof -
  have h: "\<not> is_member server0 (sd_channelId \<lparr>sd_channelId = ''r2'', sd_content = ''hi'', sd_type = Some ''text''\<rparr>)
             (sock_userId sockA)"
    by (simp add: is_member_def server0_def sockA_def)
  show ?thesis
    using h C1_non_member_send_rejected [OF h, of no_faults 5]
    by (auto simp: no_faults_def server0_def sockA_def)
qed

text \<open>
  Claim C4, as amended. When the sender is a member of the channel, the type is a value
  of \<open>MessageType\<close> (or absent, which means \<open>text\<close>) and no collaborator call fails, a
  \<open>message:send\<close> stores exactly one message row with that sender, channel, content
  and type, and \<open>message:new\<close> with the stored row goes to the whole room of the
  channel, the sender's own connection included. The room receives it twice: once from
  \<open>MessageService.sendMessage\<close> through \<open>emitToChannel\<close>, once from the handler.
\<close>

theorem C4_member_send_stored_and_broadcast:
  assumes "is_member s (sd_channelId d) (sock_userId sock)"
    and "(case sd_type d of None \<Rightarrow> ''text'' | Some t \<Rightarrow> t) \<in> set MessageType"
  shows "let s' = handleSendMessage no_faults now sock (Some d) s;
             msg = \<lparr>msg_id = length (messages s), msg_senderId = sock_userId sock,
                    msg_channelId = sd_channelId d, msg_content = sd_content d,
                    msg_type = (case sd_type d of None \<Rightarrow> ''text'' | Some t \<Rightarrow> t)\<rparr>;
             room = rooms s (''channel:'' @ sd_channelId d)
         in messages s' = messages s @ [msg]
            \<and> outbox s' = outbox s @ [(room, message_new msg), (room, message_new msg)]
            \<and> (\<forall>sid \<in> room. received s' sid = received s sid @ [message_new msg, message_new msg])"
proof -
  obtain msg s1 where sm:
    "sendMessage no_faults now (sock_userId sock) (sd_channelId d) (sd_content d) (sd_type d) s
       = (Inr msg, s1)"
    using sendMessage_no_faults[OF assms] by blast
  note r = sendMessage_returns[OF sm]
  have h: "handleSendMessage no_faults now sock (Some d) s
             = io_to_emit (''channel:'' @ sd_channelId d) (message_new msg) s1"
    by (simp add: handleSendMessage_def sm)
  have ob: "outbox (handleSendMessage no_faults now sock (Some d) s)
      = outbox s @ [(rooms s (''channel:'' @ sd_channelId d), message_new msg),
                    (rooms s (''channel:'' @ sd_channelId d), message_new msg)]"
    unfolding h io_to_emit_def using r by simp
  have ms: "messages (handleSendMessage no_faults now sock (Some d) s) = messages s @ [msg]"
    unfolding h io_to_emit_def using r by simp
  have rc: "received (handleSendMessage no_faults now sock (Some d) s) sid
      = received s sid @ [message_new msg, message_new msg]"
    if "sid \<in> rooms s (''channel:'' @ sd_channelId d)" for sid
    using that by (simp add: received_def ob)
  from r have "msg = \<lparr>msg_id = length (messages s), msg_senderId = sock_userId sock,
                    msg_channelId = sd_channelId d, msg_content = sd_content d,
                    msg_type = (case sd_type d of None \<Rightarrow> ''text'' | Some t \<Rightarrow> t)\<rparr>"
    by blast
  with ob ms rc show ?thesis by (simp add: Let_def)
qed

text \<open>User \<open>u1\<close> on connection \<open>A\<close> sends to \<open>r1\<close>; \<open>A\<close> and \<open>B\<close> are in the room.\<close>

theorem C4_member_send_stored_and_broadcast_witness:
  "is_member server0 ''r1'' ''u1''
   \<and> ''text'' \<in> set MessageType
   \<and> messages (handleSendMessage no_faults 5 sockA
        (Some \<lparr>sd_channelId = ''r1'', sd_content = ''hi'', sd_type = Some ''text''\<rparr>) server0)
      = [\<lparr>msg_id = 0, msg_senderId = ''u1'', msg_channelId = ''r1'', msg_content = ''hi'',
          msg_type = ''text''\<rparr>]
   \<and> received (handleSendMessage no_faults 5 sockA
        (Some \<lparr>sd_channelId = ''r1'', sd_content = ''hi'', sd_type = Some ''text''\<rparr>) server0) ''B''
      = [message_new \<lparr>msg_id = 0, msg_senderId = ''u1'', msg_channelId = ''r1'',
           msg_content = ''hi'', msg_type = ''text''\<rparr>,
         message_new \<lparr>msg_id = 0, msg_senderId = ''u1'', msg_channelId = ''r1'',
           msg_content = ''hi'', msg_type = ''text''\<rparr>]
   \<and> received (handleSendMessage no_faults 5 sockA
        (Some \<lparr>sd_channelId = ''r1'', sd_content = ''hi'', sd_type = Some ''text''\<rparr>) server0) ''A''
      = [message_new \<lparr>msg_id = 0, msg_senderId = ''u1'', msg_channelId = ''r1'',
           msg_content = ''hi'', msg_type = ''text''\<rparr>,
         message_new \<lparr>msg_id = 0, msg_senderId = ''u1'', msg_channelId = ''r1'',
           msg_content = ''hi'', msg_type = ''text''\<rparr>]"
proof -
  have h: "is_member server0 (sd_channelId \<lparr>sd_channelId = ''r1'', sd_content = ''hi'', sd_type = Some ''text''\<rparr>)
             (sock_userId sockA)"
    by (simp add: is_member_def server0_def sockA_def)
  have ty: "(case sd_type \<lparr>sd_channelId = ''r1'', sd_content = ''hi'', sd_type = Some ''text''\<rparr> of
               None \<Rightarrow> ''text'' | Some t \<Rightarrow> t) \<in> set MessageType"
    by (simp add: MessageType_def)
  have r: "rooms server0 ''channel:r1'' = {''A'', ''B''}" "received server0 ''A'' = []"
     "received server0 ''B'' = []" "messages server0 = []"
    by (simp_all add: server0_def received_def)
  show ?thesis
    using h ty C4_member_send_stored_and_broadcast [OF h ty, of 5] r
    by (simp add: Let_def sockA_def)
qed

text \<open>
  Claim C4 as stated, for every send by a member, fails twice over. Member \<open>u1\<close>
  sends to \<open>r1\<close> with the type \<open>bogus\<close>: the insert is refused, nothing is stored
  and connection \<open>B\<close> in the room receives nothing. Member \<open>u1\<close> sends a text while
  the update of the message count fails: the row is stored, and \<open>B\<close> still receives
  nothing.
\<close>

theorem C4_member_send_counterexample:
  "is_member server0 ''r1'' ''u1''
   \<and> messages (handleSendMessage no_faults 5 sockA
        (Some \<lparr>sd_channelId = ''r1'', sd_content = ''hi'', sd_type = Some ''bogus''\<rparr>) server0) = []
   \<and> received (handleSendMessage no_faults 5 sockA
        (Some \<lparr>sd_channelId = ''r1'', sd_content = ''hi'', sd_type = Some ''bogus''\<rparr>) server0) ''B'' = []
   \<and> messages (handleSendMessage count_down 5 sockA
        (Some \<lparr>sd_channelId = ''r1'', sd_content = ''hi'', sd_type = Some ''text''\<rparr>) server0)
      = [\<lparr>msg_id = 0, msg_senderId = ''u1'', msg_channelId = ''r1'', msg_content = ''hi'',
          msg_type = ''text''\<rparr>]
   \<and> received (handleSendMessage count_down 5 sockA
        (Some \<lparr>sd_channelId = ''r1'', sd_content = ''hi'', sd_type = Some ''text''\<rparr>) server0) ''B'' = []"
proof -
  have m: "is_member server0 ''r1'' ''u1''"
    by (simp add: is_member_def server0_def)
  have bogus: "handleSendMessage no_faults 5 sockA
        (Some \<lparr>sd_channelId = ''r1'', sd_content = ''hi'', sd_type = Some ''bogus''\<rparr>) server0
      = server0\<lparr>outbox := [({''A''}, error_event ''message:send''
          (''invalid input value for enum messages_type_enum: '' @ [CHR 0x22] @ ''bogus'' @ [CHR 0x22]))]\<rparr>"
    by (simp add: handleSendMessage_def sendMessage_def isUserMember_def is_member_def
          message_create_def MessageType_def socket_emit_def no_faults_def server0_def sockA_def)
  have late: "handleSendMessage count_down 5 sockA
        (Some \<lparr>sd_channelId = ''r1'', sd_content = ''hi'', sd_type = Some ''text''\<rparr>) server0
      = server0\<lparr>messages := [\<lparr>msg_id = 0, msg_senderId = ''u1'', msg_channelId = ''r1'',
                     msg_content = ''hi'', msg_type = ''text''\<rparr>],
                 outbox := [({''A''}, error_event ''message:send'' ''deadlock detected'')]\<rparr>"
    by (simp add: handleSendMessage_def sendMessage_def isUserMember_def is_member_def
          message_create_def MessageType_def incrementMessageCount_def socket_emit_def
          count_down_def server0_def sockA_def Let_def)
  show ?thesis
    unfolding bogus late using m by (simp add: received_def server0_def)
qed

section \<open>Joining rooms\<close>

text \<open>
  Claim C2 says that \<open>channel:join\<close> authorizes the user before the socket enters the
  room. \<open>handleJoinChannel\<close> makes no such check: user \<open>u1\<close>, who is not a member of
  \<open>r2\<close>, joins its room and is acknowledged, and then receives what member \<open>u2\<close>
  sends to \<open>r2\<close>. (The acknowledgement itself goes to the requesting socket only.)
\<close>

theorem C2_join_is_not_authorized:
  "\<not> is_member server0 ''r2'' ''u1''
   \<and> handleJoinChannel no_faults sockA (Some \<lparr>cd_channelId = ''r2''\<rparr>) server0
     = server0\<lparr>rooms := (rooms server0)(''channel:r2'' := {''A'', ''B''}),
               outbox := [({''A''}, channel_joined ''r2'')]\<rparr>
   \<and> received
        (handleSendMessage no_faults 6 sockB
           (Some \<lparr>sd_channelId = ''r2'', sd_content = ''for members only'', sd_type = None\<rparr>)
           (handleJoinChannel no_faults sockA (Some \<lparr>cd_channelId = ''r2''\<rparr>) server0)) ''A''
     = [channel_joined ''r2'',
        message_new \<lparr>msg_id = 0, msg_senderId = ''u2'', msg_channelId = ''r2'',
          msg_content = ''for members only'', msg_type = ''text''\<rparr>,
        message_new \<lparr>msg_id = 0, msg_senderId = ''u2'', msg_channelId = ''r2'',
          msg_content = ''for members only'', msg_type = ''text''\<rparr>]"
proof -
  have a: "\<not> is_member server0 ''r2'' ''u1''"
    by (simp add: is_member_def server0_def)
  have b: "handleJoinChannel no_faults sockA (Some \<lparr>cd_channelId = ''r2''\<rparr>) server0
     = server0\<lparr>rooms := (rooms server0)(''channel:r2'' := {''A'', ''B''}),
               outbox := [({''A''}, channel_joined ''r2'')]\<rparr>"
    by (simp add: handleJoinChannel_def socket_join_def socket_emit_def no_faults_def
          server0_def sockA_def)
  have c: "received
        (handleSendMessage no_faults 6 sockB
           (Some \<lparr>sd_channelId = ''r2'', sd_content = ''for members only'', sd_type = None\<rparr>)
           (server0\<lparr>rooms := (rooms server0)(''channel:r2'' := {''A'', ''B''}),
               outbox := [({''A''}, channel_joined ''r2'')]\<rparr>)) ''A''
     = [channel_joined ''r2'',
        message_new \<lparr>msg_id = 0, msg_senderId = ''u2'', msg_channelId = ''r2'',
          msg_content = ''for members only'', msg_type = ''text''\<rparr>,
        message_new \<lparr>msg_id = 0, msg_senderId = ''u2'', msg_channelId = ''r2'',
          msg_content = ''for members only'', msg_type = ''text''\<rparr>]"
    by (simp add: handleSendMessage_def sendMessage_def isUserMember_def is_member_def
          message_create_def MessageType_def incrementMessageCount_def emitToChannel_def
          io_to_emit_def received_def mention_char_def no_faults_def server0_def sockB_def
          Let_def)
  show ?thesis using a b c by simp
qed

text \<open>
  Claim C7. Handling \<open>channel:join\<close> twice in succession for the same socket and
  channel leaves the rooms as handling it once does: the adapter keeps a set of socket
  ids per room, so no second membership edge appears.
\<close>

theorem C7_join_idempotent:
  "rooms (handleJoinChannel flt sock data (handleJoinChannel flt sock data s))
     = rooms (handleJoinChannel flt sock data s)
   \<and> sockets (handleJoinChannel flt sock data (handleJoinChannel flt sock data s))
     = sockets (handleJoinChannel flt sock data s)"
  by (cases data; cases "flt SocketJoin")
     (simp_all add: handleJoinChannel_def socket_join_def socket_emit_def insert_absorb)

section \<open>Presence and teardown\<close>

text \<open>
  Claim C3 says that a user is stored offline exactly when the user has no live
  connection. \<open>handleDisconnect\<close> keeps no count and does not ask
  \<open>SocketManager.isUserOnline\<close>: user \<open>u1\<close> has the registered connections \<open>A\<close>
  and \<open>A2\<close> and loses \<open>A\<close>. One connection is still live and \<open>isUserOnline\<close>
  still answers true, yet \<open>u1\<close> is stored offline and \<open>user:offline\<close> has been
  emitted.
\<close>

theorem C3_second_connection_stored_offline:
  "sockets two_tabs = [sockA2]
   \<and> connectionCount two_tabs ''u1'' = 1
   \<and> isUserOnline two_tabs ''u1''
   \<and> \<not> stored_online two_tabs ''u1''
   \<and> count_event (user_offline ''u1'') two_tabs = 1"
proof -
  have s: "two_tabs =
      server_idle\<lparr>sockets := [sockA2],
        rooms := (\<lambda>r. {})(''user:u1'' := {''A2''}, ''channel:r1'' := {''A2''}),
        users := [\<lparr>user_id = ''u1'', username = ''alice'', isOnline = False, lastSeenAt = Some 3\<rparr>,
                  \<lparr>user_id = ''u2'', username = ''bob'', isOnline = False, lastSeenAt = None\<rparr>],
        outbox := [({''A''}, user_online ''u1''), ({''A'', ''A2''}, user_online ''u1''),
                   ({''A2''}, user_offline ''u1'')]\<rparr>"
    by (simp add: two_tabs_def register_def disconnect_def registerEvents_def
          handleConnection_def handleDisconnect_def socket_join_def updateOnlineStatus_def
          findUserChannels_def io_emit_def connected_ids_def no_faults_def server_idle_def
          server0_def sockA_def sockA2_def fun_eq_iff)
       auto
  show ?thesis
    unfolding s
    by (simp add: connectionCount_def isUserOnline_def getUserSockets_def stored_online_def
          count_event_def sockA2_def)
qed

text \<open>
  Claim C5, as amended. Disconnect processing for a connection id that has already been
  removed is a no-op: the server state stays as the first disconnect left it, so no
  error is raised and no second \<open>user:offline\<close> is emitted, and the removed id is in
  no room. Nothing is returned: the handler is \<open>Promise<void>\<close>, there is no set of
  rooms, empty or not.
\<close>

theorem C5_second_disconnect_is_noop:
  "disconnect flt t2 sid (disconnect flt t1 sid s) = disconnect flt t1 sid s
   \<and> count_event (user_offline u) (disconnect flt t2 sid (disconnect flt t1 sid s))
     = count_event (user_offline u) (disconnect flt t1 sid s)
   \<and> exited (disconnect flt t2 sid (disconnect flt t1 sid s)) = exited (disconnect flt t1 sid s)
   \<and> (find (\<lambda>k. sock_id k = sid) (sockets s) = Some sock
        \<longrightarrow> sid \<notin> rooms (disconnect flt t1 sid s) r)
   \<and> disconnect_returns flt t2 sid (disconnect flt t1 sid s) = None"
proof -
  have gone: "sid \<notin> rooms (disconnect flt t1 sid s) r"
    if "find (\<lambda>k. sock_id k = sid) (sockets s) = Some sock"
    using that by (simp add: disconnect_def handleDisconnect_rooms)
  show ?thesis
    using gone by (simp add: disconnect_twice disconnect_returns_def)
qed

text \<open>
  Connection \<open>A\<close> of the small deployment disconnects, and disconnect processing for
  \<open>A\<close> is asked for once more.
\<close>

theorem C5_second_disconnect_is_noop_witness:
  "find (\<lambda>k. sock_id k = ''A'') (sockets server0) = Some sockA
   \<and> disconnect no_faults 2 ''A'' server_A_gone = server_A_gone
   \<and> count_event (user_offline ''u1'') (disconnect no_faults 2 ''A'' server_A_gone) = 1
   \<and> ''A'' \<notin> rooms server_A_gone ''channel:r1''"
proof -
  have f: "find (\<lambda>k. sock_id k = ''A'') (sockets server0) = Some sockA"
    by (simp add: server0_def sockA_def)
  have c: "count_event (user_offline ''u1'') server_A_gone = 1"
    by (simp add: server_A_gone_def disconnect_def handleDisconnect_def
          updateOnlineStatus_def io_emit_def connected_ids_def count_event_def no_faults_def
          server0_def sockA_def sockB_def)
  show ?thesis
    using f c
      C5_second_disconnect_is_noop [where flt = no_faults and ?t1.0 = 1 and ?t2.0 = 2
        and sid = "''A''" and s = server0 and sock = sockA and u = "''u1''"
        and r = "''channel:r1''"]
    by (simp add: server_A_gone_def)
qed

text \<open>
  Claim C5 as stated fails in one point: disconnect processing for the removed
  connection \<open>A\<close> does not return the empty set of rooms, it returns nothing.
\<close>

theorem C5_no_room_set_returned_counterexample:
  "sockets server_A_gone = [sockB]
   \<and> disconnect_returns no_faults 2 ''A'' server_A_gone \<noteq> Some {}"
  by (simp add: disconnect_returns_def server_A_gone_def disconnect_def handleDisconnect_def
        updateOnlineStatus_def io_emit_def no_faults_def server0_def sockA_def sockB_def)

text \<open>
  Claim C6, as amended. Handling \<open>presence:update {status}\<close> stores nothing, there
  being no tracked explicit status: its only effect is one
  \<open>user:presence {userId, status, timestamp}\<close> emission to every connected socket,
  with the socket's authenticated \<open>userId\<close>. The connection count and the stored
  online flag of every user are left as they were. A user with zero connections is
  never announced as away or busy: the event is handled for a registered socket only,
  whose user has a live connection, and an event on any connection announces nothing
  for a user without one.
\<close>

theorem C6_presence_update_only_broadcasts:
  "handlePresenceUpdate now sock (Some d) s
     = s\<lparr>outbox := outbox s @
          [(connected_ids s, user_presence (sock_userId sock) (pd_status d) now)]\<rparr>
   \<and> connectionCount (handlePresenceUpdate now sock (Some d) s) u = connectionCount s u
   \<and> stored_online (handlePresenceUpdate now sock (Some d) s) u = stored_online s u
   \<and> (sock \<in> set (sockets s) \<longrightarrow> 0 < connectionCount s (sock_userId sock))
   \<and> (connectionCount s u = 0
        \<longrightarrow> announced (receive flt now sid (In_presence_update data) s) u = announced s u)"
  using registered_has_connection[of sock s] receive_presence_other_user[of s u flt now sid data]
  by (simp add: handlePresenceUpdate_def io_emit_def connectionCount_def stored_online_def)

text \<open>
  Connection \<open>A\<close> of user \<open>u1\<close> reports \<open>away\<close>; user \<open>u3\<close> has no
  connection.
\<close>

theorem C6_presence_update_only_broadcasts_witness:
  "sockA \<in> set (sockets server0)
   \<and> 0 < connectionCount server0 ''u1''
   \<and> connectionCount server0 ''u3'' = 0
   \<and> announced (receive no_faults 7 ''A'' (In_presence_update (Some \<lparr>pd_status = ''away''\<rparr>)) server0) ''u3''
      = []
   \<and> announced (receive no_faults 7 ''A'' (In_presence_update (Some \<lparr>pd_status = ''away''\<rparr>)) server0) ''u1''
      = [''away'']"
proof -
  have a: "sockA \<in> set (sockets server0)" "sock_userId sockA = ''u1''"
    by (simp_all add: server0_def sockA_def)
  have z: "connectionCount server0 ''u3'' = 0"
    by (simp add: connectionCount_def server0_def sockA_def sockB_def)
  have n: "announced server0 ''u3'' = []"
    by (simp add: announced_def server0_def)
  have o: "announced (receive no_faults 7 ''A'' (In_presence_update (Some \<lparr>pd_status = ''away''\<rparr>)) server0) ''u1''
      = [''away'']"
    by (simp add: receive_def handlePresenceUpdate_def io_emit_def announced_def server0_def
          sockA_def)
  show ?thesis
    using a z n o
      C6_presence_update_only_broadcasts [where sock = sockA and s = server0 and u = "''u3''"
        and flt = no_faults and now = 7 and sid = "''A''"
        and data = "Some \<lparr>pd_status = ''away''\<rparr>"]
    by simp
qed

text \<open>
  Claim C6 as stated fails: after connection \<open>A\<close> reports \<open>away\<close>, the server
  state differs from the state before only in the emission log, so no presence status of
  \<open>u1\<close> has been updated.
\<close>

theorem C6_presence_update_stores_nothing:
  "(handlePresenceUpdate 7 sockA (Some \<lparr>pd_status = ''away''\<rparr>) server0)\<lparr>outbox := outbox server0\<rparr>
     = server0
   \<and> outbox (handlePresenceUpdate 7 sockA (Some \<lparr>pd_status = ''away''\<rparr>) server0)
     = [({''A'', ''B''}, user_presence ''u1'' ''away'' 7)]"
  by (simp add: handlePresenceUpdate_def io_emit_def connected_ids_def server0_def sockA_def sockB_def)

section \<open>Errors, authentication and fan-out\<close>

text \<open>
  Claim C8. Whatever \<open>MessageService.sendMessage\<close> throws, and whatever the adapter
  throws on join or leave, the handler catches it and the only emission is one
  \<open>error\<close> event, naming the inbound event, to the originating socket. In every case,
  error or not, the three handlers leave the registered sockets as they are and do not
  end the process.
\<close>

theorem C8_errors_go_to_sender_only:
  "(fst (sendMessage flt now (sock_userId sock) (sd_channelId d) (sd_content d) (sd_type d) s) = Inl e
      \<longrightarrow> outbox (handleSendMessage flt now sock (Some d) s)
            = outbox s @ [({sock_id sock},
                 error_event ''message:send'' (error_message e ''Failed to send message''))])
   \<and> (flt SocketJoin = Some e
      \<longrightarrow> handleJoinChannel flt sock (Some c) s
            = s\<lparr>outbox := outbox s @ [({sock_id sock},
                 error_event ''channel:join'' (error_message e ''Failed to join channel''))]\<rparr>)
   \<and> (flt SocketLeave = Some e
      \<longrightarrow> handleLeaveChannel flt sock (Some c) s
            = s\<lparr>outbox := outbox s @ [({sock_id sock},
                 error_event ''channel:leave'' (error_message e ''Failed to leave channel''))]\<rparr>)
   \<and> sockets (handleSendMessage flt now sock data s) = sockets s
   \<and> exited (handleSendMessage flt now sock data s) = exited s
   \<and> sockets (handleJoinChannel flt sock cdata s) = sockets s
   \<and> exited (handleJoinChannel flt sock cdata s) = exited s
   \<and> sockets (handleLeaveChannel flt sock cdata s) = sockets s
   \<and> exited (handleLeaveChannel flt sock cdata s) = exited s"
proof -
  have send: "outbox (handleSendMessage flt now sock (Some d) s)
            = outbox s @ [({sock_id sock},
                 error_event ''message:send'' (error_message e ''Failed to send message''))]"
    if f: "fst (sendMessage flt now (sock_userId sock) (sd_channelId d) (sd_content d) (sd_type d) s) = Inl e"
  proof -
    obtain s1 where sm:
      "sendMessage flt now (sock_userId sock) (sd_channelId d) (sd_content d) (sd_type d) s = (Inl e, s1)"
      using f by (cases "sendMessage flt now (sock_userId sock) (sd_channelId d) (sd_content d) (sd_type d) s") simp
    from sendMessage_throws[OF sm] have "outbox s1 = outbox s" by simp
    then show ?thesis by (simp add: handleSendMessage_def sm socket_emit_def)
  qed
  have join: "handleJoinChannel flt sock (Some c) s
            = s\<lparr>outbox := outbox s @ [({sock_id sock},
                 error_event ''channel:join'' (error_message e ''Failed to join channel''))]\<rparr>"
    if "flt SocketJoin = Some e"
    using that by (simp add: handleJoinChannel_def socket_join_def socket_emit_def)
  have leave: "handleLeaveChannel flt sock (Some c) s
            = s\<lparr>outbox := outbox s @ [({sock_id sock},
                 error_event ''channel:leave'' (error_message e ''Failed to leave channel''))]\<rparr>"
    if "flt SocketLeave = Some e"
    using that by (simp add: handleLeaveChannel_def socket_leave_def socket_emit_def)
  show ?thesis
    using send join leave handleSendMessage_frame[of flt now sock data s]
      handleJoinChannel_frame[of flt sock cdata s] handleLeaveChannel_frame[of flt sock cdata s]
    by blast
qed

text \<open>
  Saving the message fails for a send by connection \<open>A\<close>; the adapter fails for a join
  and a leave by connection \<open>A\<close>.
\<close>

theorem C8_errors_go_to_sender_only_witness:
  "fst (sendMessage db_down 5 ''u1'' ''r1'' ''hi'' None server0) = Inl (ErrorObj ''connection terminated'')
   \<and> outbox (handleSendMessage db_down 5 sockA
        (Some \<lparr>sd_channelId = ''r1'', sd_content = ''hi'', sd_type = None\<rparr>) server0)
      = [({''A''}, error_event ''message:send'' ''connection terminated'')]
   \<and> adapter_down SocketJoin = Some (ErrorObj ''adapter down'')
   \<and> adapter_down SocketLeave = Some (ErrorObj ''adapter down'')
   \<and> handleJoinChannel adapter_down sockA (Some \<lparr>cd_channelId = ''r2''\<rparr>) server0
      = server0\<lparr>outbox := [({''A''}, error_event ''channel:join'' ''adapter down'')]\<rparr>
   \<and> handleLeaveChannel adapter_down sockA (Some \<lparr>cd_channelId = ''r1''\<rparr>) server0
      = server0\<lparr>outbox := [({''A''}, error_event ''channel:leave'' ''adapter down'')]\<rparr>
   \<and> \<not> exited (handleSendMessage db_down 5 sockA
        (Some \<lparr>sd_channelId = ''r1'', sd_content = ''hi'', sd_type = None\<rparr>) server0)"
proof -
  have f: "fst (sendMessage db_down 5 ''u1'' ''r1'' ''hi'' None server0) = Inl (ErrorObj ''connection terminated'')"
    by (simp add: sendMessage_def isUserMember_def is_member_def message_create_def db_down_def
          server0_def)
  have j: "adapter_down SocketJoin = Some (ErrorObj ''adapter down'')"
    "adapter_down SocketLeave = Some (ErrorObj ''adapter down'')"
    by (simp_all add: adapter_down_def)
  have o: "outbox server0 = []" "sock_id sockA = ''A''" "sock_userId sockA = ''u1''"
    "exited server0 = False"
    by (simp_all add: server0_def sockA_def)
  show ?thesis
    using f j o
      C8_errors_go_to_sender_only [where flt = db_down and now = 5 and sock = sockA
        and d = "\<lparr>sd_channelId = ''r1'', sd_content = ''hi'', sd_type = None\<rparr>"
        and s = server0 and e = "ErrorObj ''connection terminated''"
        and data = "Some \<lparr>sd_channelId = ''r1'', sd_content = ''hi'', sd_type = None\<rparr>"]
      C8_errors_go_to_sender_only [where flt = adapter_down and sock = sockA and s = server0
        and e = "ErrorObj ''adapter down''" and c = "\<lparr>cd_channelId = ''r2''\<rparr>"]
      C8_errors_go_to_sender_only [where flt = adapter_down and sock = sockA and s = server0
        and e = "ErrorObj ''adapter down''" and c = "\<lparr>cd_channelId = ''r1''\<rparr>"]
    by simp
qed

text \<open>
  Claim C9. A connection attempt without a token is refused by the middleware with
  \<open>Authentication token is required\<close>, and an attempt with a token is refused with
  \<open>Authentication failed\<close> whenever token verification throws; a refused attempt
  leaves the server as it was, so no socket is registered and no handler runs. As the
  middleware calls the exported \<open>verifyToken\<close> without its receiver, verification
  throws for every token. The \<open>connection\<close> listener registers the socket it is given
  with the \<open>userId\<close> the middleware attached, and no event handler changes the
  registered sockets or their \<open>userId\<close>.
\<close>

theorem C9_registered_only_after_verification:
  "(handshake_token hs = None \<or> handshake_token hs = Some []
      \<longrightarrow> authMiddleware jwt sid hs = Inl (ErrorObj ''Authentication token is required'')
          \<and> connection jwt flt now sid hs s = s)
   \<and> (handshake_token hs = Some tok \<and> tok \<noteq> []
      \<longrightarrow> (\<exists>e. verifyToken_export jwt tok = Inl e)
          \<and> authMiddleware jwt sid hs = Inl (ErrorObj ''Authentication failed'')
          \<and> connection jwt flt now sid hs s = s)
   \<and> sockets (connection jwt flt now sid hs s) = sockets s
   \<and> sockets (register flt now sock s) = sockets s @ [sock]
   \<and> sockets (on_event flt now sock ev s) = sockets s"
proof -
  have a: "authMiddleware jwt sid hs = Inl (ErrorObj ''Authentication token is required'')
          \<and> connection jwt flt now sid hs s = s"
    if "handshake_token hs = None \<or> handshake_token hs = Some []"
    using that by (auto simp: authMiddleware_def connection_def)
  have b: "(\<exists>e. verifyToken_export jwt tok = Inl e)
          \<and> authMiddleware jwt sid hs = Inl (ErrorObj ''Authentication failed'')
          \<and> connection jwt flt now sid hs s = s"
    if "handshake_token hs = Some tok \<and> tok \<noteq> []"
    using that
    by (simp add: authMiddleware_def connection_def verifyToken_export_def verifyToken_def)
  have c: "connection jwt flt now sid hs s = s"
    by (simp add: connection_def authMiddleware_def verifyToken_export_def verifyToken_def
          split: option.splits)
  have d: "sockets (register flt now sock s) = sockets s @ [sock]"
    by (simp add: register_def registerEvents_def handleConnection_sockets)
  show ?thesis using a b c d on_event_sockets[of flt now sock ev s] by simp
qed

text \<open>
  On an idle server: a handshake without a token, one with a forged token, and one
  with a token the library accepts, in the \<open>Authorization\<close> header.
\<close>

theorem C9_registered_only_after_verification_witness:
  "handshake_token hs_none = None
   \<and> authMiddleware jwt0 ''C'' hs_none = Inl (ErrorObj ''Authentication token is required'')
   \<and> connection jwt0 no_faults 1 ''C'' hs_none server_idle = server_idle
   \<and> handshake_token hs_bad = Some ''forged''
   \<and> authMiddleware jwt0 ''C'' hs_bad = Inl (ErrorObj ''Authentication failed'')
   \<and> connection jwt0 no_faults 1 ''C'' hs_bad server_idle = server_idle
   \<and> handshake_token hs_header_u2 = Some ''tok-u2''
   \<and> authMiddleware jwt0 ''C'' hs_header_u2 = Inl (ErrorObj ''Authentication failed'')
   \<and> connection jwt0 no_faults 1 ''C'' hs_header_u2 server_idle = server_idle"
proof -
  have t: "handshake_token hs_none = None" "handshake_token hs_bad = Some ''forged''"
    "handshake_token hs_header_u2 = Some ''tok-u2''"
    by (simp_all add: handshake_token_def hs_none_def hs_bad_def hs_header_u2_def)
  show ?thesis
    using t
      C9_registered_only_after_verification [where hs = hs_none and jwt = jwt0
        and flt = no_faults and now = 1 and sid = "''C''" and s = server_idle]
      C9_registered_only_after_verification [where hs = hs_bad and jwt = jwt0
        and flt = no_faults and now = 1 and sid = "''C''" and s = server_idle
        and tok = "''forged''"]
      C9_registered_only_after_verification [where hs = hs_header_u2 and jwt = jwt0
        and flt = no_faults and now = 1 and sid = "''C''" and s = server_idle
        and tok = "''tok-u2''"]
    by simp
qed

text \<open>
  Claim C10. \<open>message:typing\<close> and \<open>message:read\<close> emit \<open>user:typing\<close> and
  \<open>message:read\<close> to the room of the channel without the originating socket, which
  therefore receives nothing, and the \<open>userId\<close> of the outbound payload is the
  socket's authenticated one: a \<open>userId\<close> supplied in the inbound payload is not read.
\<close>

theorem C10_typing_and_read_skip_sender:
  "handleTyping sock (Some d) s
     = s\<lparr>outbox := outbox s @
          [(rooms s (''channel:'' @ td_channelId d) - {sock_id sock},
            user_typing (sock_userId sock) (td_channelId d) (td_isTyping d))]\<rparr>
   \<and> handleMessageRead sock (Some r) s
     = s\<lparr>outbox := outbox s @
          [(rooms s (''channel:'' @ rd_channelId r) - {sock_id sock},
            message_read (sock_userId sock) (rd_messageId r))]\<rparr>
   \<and> received (handleTyping sock (Some d) s) (sock_id sock) = received s (sock_id sock)
   \<and> received (handleMessageRead sock (Some r) s) (sock_id sock) = received s (sock_id sock)
   \<and> handleTyping sock (Some (d\<lparr>td_userId := claimed\<rparr>)) s = handleTyping sock (Some d) s
   \<and> handleMessageRead sock (Some (r\<lparr>rd_userId := claimed\<rparr>)) s = handleMessageRead sock (Some r) s"
  by (simp add: handleTyping_def handleMessageRead_def socket_to_emit_def received_def)

end
